theory Spec2Isabelle
  imports Complex_Main
begin

section \<open>Planar circle geometry of the capsule and triangle scenes\<close>

text \<open>
  The scripts compute with numpy arrays of three float64 components. The embedding
  replaces float64 by the real numbers, so every statement below is a statement about the
  algorithms in exact arithmetic: rounding is not modelled.
\<close>

subsection \<open>Points and the array operations the scripts use\<close>

datatype point = Point (px: real) (py: real) (pz: real)

definition vadd :: "point \<Rightarrow> point \<Rightarrow> point" where
  "vadd p q = Point (px p + px q) (py p + py q) (pz p + pz q)"

definition vsub :: "point \<Rightarrow> point \<Rightarrow> point" where
  "vsub p q = Point (px p - px q) (py p - py q) (pz p - pz q)"

definition smul :: "real \<Rightarrow> point \<Rightarrow> point" where
  "smul k p = Point (k * px p) (k * py p) (k * pz p)"

definition vdiv :: "point \<Rightarrow> real \<Rightarrow> point" where
  "vdiv p k = Point (px p / k) (py p / k) (pz p / k)"


definition norm3 :: "point \<Rightarrow> real" where
  \<comment> \<open>\<open>np.linalg.norm\<close> of a three-component array\<close>
  "norm3 p = sqrt ((px p)\<^sup>2 + (py p)\<^sup>2 + (pz p)\<^sup>2)"


text \<open>
  The circles of the specification: a centre in the plane \<open>z = 0\<close> and a positive radius.
\<close>

definition planar_circle :: "point \<Rightarrow> real \<Rightarrow> bool" where
  "planar_circle c r \<longleftrightarrow> pz c = 0 \<and> 0 < r"

subsection \<open>\<open>circle_circle_intersections\<close> (triangle scene)\<close>

text \<open>
  numpy does not raise on a division by zero: it warns and yields \<open>inf\<close> or \<open>nan\<close>.
  The model makes that outcome a value of its own, so that no statement rests on the
  convention \<open>x / 0 = 0\<close> of the logic.
\<close>

datatype fp_error = DivideByZero

definition default_eps :: real where
  "default_eps = 1 / 10 ^ 8"

definition cci_a :: "real \<Rightarrow> real \<Rightarrow> real \<Rightarrow> real" where
  \<comment> \<open>\<open>a = (r1**2 - r2**2 + d**2) / (2 * d)\<close>\<close>
  "cci_a r1 r2 d = (r1\<^sup>2 - r2\<^sup>2 + d\<^sup>2) / (2 * d)"

definition cci_h_sq :: "real \<Rightarrow> real \<Rightarrow> real \<Rightarrow> real" where
  \<comment> \<open>\<open>h_sq = r1**2 - a**2\<close>, before the clamp\<close>
  "cci_h_sq r1 r2 d = r1\<^sup>2 - (cci_a r1 r2 d)\<^sup>2"

definition cci_p0 :: "point \<Rightarrow> real \<Rightarrow> point \<Rightarrow> real \<Rightarrow> point" where
  \<comment> \<open>\<open>p0 = c1 + a * v / d\<close>\<close>
  "cci_p0 c1 r1 c2 r2 =
     (let v = vsub c2 c1; d = norm3 v
      in vadd c1 (vdiv (smul (cci_a r1 r2 d) v) d))"

definition cci_perp :: "point \<Rightarrow> point \<Rightarrow> point" where
  \<comment> \<open>\<open>perp = np.array([-v[1], v[0], 0]) / d\<close>\<close>
  "cci_perp c1 c2 =
     (let v = vsub c2 c1; d = norm3 v
      in vdiv (Point (- py v) (px v) 0) d)"

definition circle_circle_intersections ::
    "point \<Rightarrow> real \<Rightarrow> point \<Rightarrow> real \<Rightarrow> real \<Rightarrow> fp_error + point list" where
  "circle_circle_intersections c1 r1 c2 r2 eps =
     (let v = vsub c2 c1; d = norm3 v in
      if d < eps then Inr []
      else if d > r1 + r2 + eps \<or> d < \<bar>r1 - r2\<bar> - eps then Inr []
      else if d = 0 then Inl DivideByZero
      else
        let h_sq = cci_h_sq r1 r2 d;
            h_sq = (if \<bar>h_sq\<bar> < eps then 0 else h_sq)
        in if h_sq < 0 then Inr []
           else
             let h = sqrt h_sq;
                 p0 = cci_p0 c1 r1 c2 r2;
                 perp = cci_perp c1 c2
             in if h = 0 then Inr [p0]
                else Inr [vadd p0 (smul h perp), vsub p0 (smul h perp)])"

subsection \<open>Orientation of the three centres (triangle scene)\<close>





subsection \<open>The inline intersection computation (capsule scene)\<close>

definition capsule_intersections ::
    "point \<Rightarrow> real \<Rightarrow> point \<Rightarrow> real \<Rightarrow> (point \<times> point) option" where
  \<comment> \<open>\<open>None\<close> stands for the two early returns that draw the circles only\<close>
  "capsule_intersections c1 r1 c2 r2 =
     (let v = vsub c2 c1; dist = norm3 v in
      if dist = 0 then None
      else
        let a = (r1\<^sup>2 - r2\<^sup>2 + dist\<^sup>2) / (2 * dist);
            h_sq = r1\<^sup>2 - a\<^sup>2;
            h_sq = (if h_sq < 0 \<and> h_sq > - (1 / 10 ^ 8) then 0 else h_sq)
        in if h_sq < 0 then None
           else
             let h = sqrt h_sq;
                 x0 = px c1 + a * (px c2 - px c1) / dist;
                 y0 = py c1 + a * (py c2 - py c1) / dist;
                 rx = - (py c2 - py c1) * (h / dist);
                 ry = (px c2 - px c1) * (h / dist)
             in Some (Point (x0 + rx) (y0 + ry) 0, Point (x0 - rx) (y0 - ry) 0))"

subsection \<open>\<open>get_arc_path\<close> (capsule scene)\<close>




record arc =
  arc_radius :: real
  arc_center :: point
  start_angle :: real
  angle :: real
  num_components :: nat





text \<open>
  Modelled from the spec: the discretisation of an arc descriptor belongs to the
  animation toolkit and is not part of the sources. The specification describes it as
  points of the circle sampled from the start angle through start angle + sweep at
  uniform angular steps.
\<close>

definition arc_point :: "arc \<Rightarrow> real \<Rightarrow> point" where
  "arc_point A t = vadd (arc_center A) (smul (arc_radius A) (Point (cos t) (sin t) 0))"

definition arc_points :: "arc \<Rightarrow> point list" where
  "arc_points A =
     map (\<lambda>k. arc_point A (start_angle A + angle A * (real k / real (num_components A - 1))))
         [0 ..< num_components A]"



subsection \<open>Snapping the endpoints and assembling the outline (capsule scene)\<close>

definition snap :: "'a list \<Rightarrow> 'a \<Rightarrow> 'a \<Rightarrow> 'a list" where
  \<comment> \<open>\<open>if pts.shape[0] > 0: pts[0] = a; pts[-1] = b\<close>\<close>
  "snap pts a b = (if length pts > 0 then (pts[0 := a])[length pts - 1 := b] else pts)"

definition snap_segments :: "'a list list \<Rightarrow> 'a list \<Rightarrow> 'a list list" where
  \<comment> \<open>segment \<open>i\<close> runs from junction \<open>i\<close> to junction \<open>i + 1\<close>, cyclically\<close>
  "snap_segments segs js =
     map (\<lambda>i. snap (segs ! i) (js ! i) (js ! ((i + 1) mod length js))) [0 ..< length segs]"

definition capsule_points :: "'a list \<Rightarrow> 'a list \<Rightarrow> 'a \<Rightarrow> 'a \<Rightarrow> 'a list" where
  \<comment> \<open>\<open>capsule.append_points(pts_A); capsule.append_points(pts_B)\<close> after the snap\<close>
  "capsule_points pts_A pts_B p1 p2 = snap pts_A p1 p2 @ snap pts_B p2 p1"

section \<open>Properties of \<open>circle_circle_intersections\<close>\<close>

subsection \<open>Auxiliary facts\<close>





lemma sqrt16: "sqrt 16 = 4"
  using real_sqrt_abs [of 4] by simp


lemma h_sq_factored:
  fixes r1 r2 d :: real
  assumes "d \<noteq> 0"
  shows "cci_h_sq r1 r2 d
        = ((r2 - d + r1) * (r2 + d - r1)) * ((d + r1 - r2) * (d + r1 + r2)) / (2 * d)\<^sup>2"
  using assms by (simp add: cci_h_sq_def cci_a_def field_simps power2_eq_square)



lemma two_points:
  assumes "0 < eps" and "eps \<le> norm3 (vsub c2 c1)"
    and "\<bar>r1 - r2\<bar> - eps \<le> norm3 (vsub c2 c1)"
    and "norm3 (vsub c2 c1) \<le> r1 + r2 + eps"
    and "eps \<le> cci_h_sq r1 r2 (norm3 (vsub c2 c1))"
  shows "circle_circle_intersections c1 r1 c2 r2 eps =
     Inr [vadd (cci_p0 c1 r1 c2 r2) (smul (sqrt (cci_h_sq r1 r2 (norm3 (vsub c2 c1)))) (cci_perp c1 c2)),
          vsub (cci_p0 c1 r1 c2 r2) (smul (sqrt (cci_h_sq r1 r2 (norm3 (vsub c2 c1)))) (cci_perp c1 c2))]"
proof -
  have "norm3 (vsub c2 c1) \<noteq> 0" using assms(1,2) by linarith
  moreover have "\<not> \<bar>cci_h_sq r1 r2 (norm3 (vsub c2 c1))\<bar> < eps" using assms(5) by linarith
  moreover have "\<not> cci_h_sq r1 r2 (norm3 (vsub c2 c1)) < 0" using assms(1,5) by linarith
  moreover have "cci_h_sq r1 r2 (norm3 (vsub c2 c1)) \<noteq> 0" using assms(1,5) by linarith
  ultimately show ?thesis using assms(2,3,4)
    by (simp add: circle_circle_intersections_def Let_def)
qed


subsection \<open>Two crossing circles\<close>



subsection \<open>The guards\<close>

text \<open>
  C2: when the centre distance exceeds \<open>r1 + r2 + eps\<close> (disjoint circles) or is below
  \<open>\<bar>r1 - r2\<bar> - eps\<close> (one circle strictly inside the other), the result is the empty list.
\<close>

theorem intersect_disjoint_or_contained_empty:
  assumes "norm3 (vsub c2 c1) > r1 + r2 + eps \<or> norm3 (vsub c2 c1) < \<bar>r1 - r2\<bar> - eps"
  shows "circle_circle_intersections c1 r1 c2 r2 eps = Inr []"
  using assms by (simp add: circle_circle_intersections_def Let_def)

theorem intersect_disjoint_or_contained_empty_witness:
  "circle_circle_intersections (Point 0 0 0) 1 (Point 5 0 0) 1 default_eps = Inr []
   \<and> circle_circle_intersections (Point 0 0 0) 5 (Point 1 0 0) 1 default_eps = Inr []"
  using intersect_disjoint_or_contained_empty [of 1 1 default_eps "Point 5 0 0" "Point 0 0 0"]
    intersect_disjoint_or_contained_empty [of 5 1 default_eps "Point 1 0 0" "Point 0 0 0"]
  by (simp add: vsub_def norm3_def default_eps_def)



subsection \<open>The clamp\<close>

text \<open>
  C9: for a pair that passes both distance guards, a computed \<open>h_sq\<close> with
  \<open>0 < h_sq < eps\<close> is clamped to zero, because the clamp tests \<open>\<bar>h_sq\<bar> < eps\<close>; the result is
  then the single point \<open>p0\<close> of the tangent case, although the circles cross.
\<close>

theorem intersect_clamps_small_positive_h_sq:
  assumes "eps \<le> norm3 (vsub c2 c1)"
    and "\<bar>r1 - r2\<bar> - eps \<le> norm3 (vsub c2 c1)"
    and "norm3 (vsub c2 c1) \<le> r1 + r2 + eps"
    and "0 < cci_h_sq r1 r2 (norm3 (vsub c2 c1))"
    and "cci_h_sq r1 r2 (norm3 (vsub c2 c1)) < eps"
  shows "circle_circle_intersections c1 r1 c2 r2 eps = Inr [cci_p0 c1 r1 c2 r2]"
proof -
  have "0 < eps" using assms(4,5) by linarith
  then have "norm3 (vsub c2 c1) \<noteq> 0" using assms(1) by linarith
  then show ?thesis using assms
    by (simp add: circle_circle_intersections_def Let_def)
qed

theorem intersect_clamps_small_positive_h_sq_witness:
  "0 < cci_h_sq 1 1 (norm3 (vsub (Point (1999999999 / 1000000000) 0 0) (Point 0 0 0)))
   \<and> cci_h_sq 1 1 (norm3 (vsub (Point (1999999999 / 1000000000) 0 0) (Point 0 0 0))) < default_eps
   \<and> circle_circle_intersections (Point 0 0 0) 1 (Point (1999999999 / 1000000000) 0 0) 1 default_eps
       = Inr [cci_p0 (Point 0 0 0) 1 (Point (1999999999 / 1000000000) 0 0) 1]"
proof -
  have d: "norm3 (vsub (Point (1999999999 / 1000000000) 0 0) (Point 0 0 0))
      = 1999999999 / 1000000000"
    by (simp add: norm3_def vsub_def)
  have h: "cci_h_sq 1 1 (1999999999 / 1000000000)
      = 3999999999 / 4000000000000000000"
    by (simp add: cci_h_sq_def cci_a_def power2_eq_square)
  show ?thesis
    using intersect_clamps_small_positive_h_sq
      [of default_eps "Point (1999999999 / 1000000000) 0 0" "Point 0 0 0" 1 1]
    by (simp add: d h default_eps_def)
qed

subsection \<open>The capsule scenario\<close>

text \<open>
  C5: for the circles centred at \<open>(-2, 0, 0)\<close> and \<open>(2, 0, 0)\<close>, both of radius 3, the result
  is the list of the two points \<open>(0, sqrt 5, 0)\<close> and \<open>(0, - sqrt 5, 0)\<close>, in that order.
\<close>

theorem intersect_capsule_scenario:
  "circle_circle_intersections (Point (- 2) 0 0) 3 (Point 2 0 0) 3 default_eps
     = Inr [Point 0 (sqrt 5) 0, Point 0 (- sqrt 5) 0]"
  by (simp add: circle_circle_intersections_def Let_def vsub_def norm3_def default_eps_def
      cci_h_sq_def cci_a_def cci_p0_def cci_perp_def vadd_def smul_def vdiv_def sqrt16)

section \<open>The two intersection computations agree\<close>

lemma crossing_from_h_sq:
  fixes r1 r2 d :: real
  assumes "0 < r1" and "0 < r2" and "0 < d" and "0 < cci_h_sq r1 r2 d"
  shows "\<bar>r1 - r2\<bar> < d \<and> d < r1 + r2"
proof -
  define A where "A = (r2 - d + r1) * (r2 + d - r1)"
  define B where "B = (d + r1 - r2) * (d + r1 + r2)"
  have "0 < A * B / (2 * d)\<^sup>2"
    using assms(3,4) h_sq_factored [of d r1 r2] by (simp add: A_def B_def)
  then have AB: "0 < A * B"
    using assms(3) by (simp add: zero_less_divide_iff)
  have up: "d < r1 + r2"
  proof (rule ccontr)
    assume "\<not> d < r1 + r2"
    then have "A \<le> 0" unfolding A_def using assms(2)
      by (intro mult_nonpos_nonneg) linarith+
    moreover have "0 \<le> B" unfolding B_def using assms(1,2,3) \<open>\<not> d < r1 + r2\<close>
      by (intro mult_nonneg_nonneg) linarith+
    ultimately have "A * B \<le> 0" by (rule mult_nonpos_nonneg)
    with AB show False by linarith
  qed
  have lo1: "r1 - r2 < d"
  proof (rule ccontr)
    assume n: "\<not> r1 - r2 < d"
    have "A \<le> 0" unfolding A_def using assms(2,3) n
      by (intro mult_nonneg_nonpos) linarith+
    moreover have "0 \<le> B" unfolding B_def using assms(1,2,3) n
      by (intro mult_nonneg_nonneg) linarith+
    ultimately have "A * B \<le> 0" by (rule mult_nonpos_nonneg)
    with AB show False by linarith
  qed
  have lo2: "r2 - r1 < d"
  proof (rule ccontr)
    assume n: "\<not> r2 - r1 < d"
    have "0 \<le> A" unfolding A_def using assms(1,2,3) n
      by (intro mult_nonneg_nonneg) linarith+
    moreover have "B \<le> 0" unfolding B_def using assms(1,2,3) n
      by (intro mult_nonpos_nonneg) linarith+
    ultimately have "A * B \<le> 0" by (rule mult_nonneg_nonpos)
    with AB show False by linarith
  qed
  show ?thesis using up lo1 lo2 by linarith
qed

lemma vsub_sel [simp]:
  "px (vsub p q) = px p - px q" "py (vsub p q) = py p - py q" "pz (vsub p q) = pz p - pz q"
  by (simp_all add: vsub_def)

lemma capsule_two_points:
  fixes c1 c2 :: point and r1 r2 :: real
  defines "d \<equiv> norm3 (vsub c2 c1)"
  defines "a \<equiv> cci_a r1 r2 d"
  defines "h \<equiv> sqrt (cci_h_sq r1 r2 d)"
  assumes "d \<noteq> 0" and "0 \<le> cci_h_sq r1 r2 d"
  shows "capsule_intersections c1 r1 c2 r2 =
      Some (Point (px c1 + a * (px c2 - px c1) / d + - (py c2 - py c1) * (h / d))
                  (py c1 + a * (py c2 - py c1) / d + (px c2 - px c1) * (h / d)) 0,
            Point (px c1 + a * (px c2 - px c1) / d - - (py c2 - py c1) * (h / d))
                  (py c1 + a * (py c2 - py c1) / d - (px c2 - px c1) * (h / d)) 0)"
  using assms(4,5) unfolding d_def a_def h_def
  by (simp add: capsule_intersections_def Let_def cci_h_sq_def cci_a_def)

lemma triangle_points_planar:
  fixes c1 c2 :: point and r1 r2 h :: real
  defines "d \<equiv> norm3 (vsub c2 c1)"
  defines "a \<equiv> cci_a r1 r2 d"
  assumes "pz c1 = 0" and "pz c2 = 0"
  shows "vadd (cci_p0 c1 r1 c2 r2) (smul h (cci_perp c1 c2)) =
           Point (px c1 + a * (px c2 - px c1) / d + - (py c2 - py c1) * (h / d))
                 (py c1 + a * (py c2 - py c1) / d + (px c2 - px c1) * (h / d)) 0"
    and "vsub (cci_p0 c1 r1 c2 r2) (smul h (cci_perp c1 c2)) =
           Point (px c1 + a * (px c2 - px c1) / d - - (py c2 - py c1) * (h / d))
                 (py c1 + a * (py c2 - py c1) / d - (px c2 - px c1) * (h / d)) 0"
  using assms(3,4) unfolding d_def a_def
  by (simp_all add: cci_p0_def cci_perp_def Let_def vadd_def smul_def vdiv_def vsub_def
      algebra_simps diff_divide_distrib)

text \<open>
  C10: for two circles of the specification (centres in the plane \<open>z = 0\<close>, positive radii),
  a positive tolerance, a centre distance \<open>d \<ge> eps\<close> and a computed \<open>h_sq \<ge> eps\<close>, the inline
  computation of the capsule scene and \<open>circle_circle_intersections\<close> yield the same two
  points in the same order: \<open>p0 + h * perp\<close> first and \<open>p0 - h * perp\<close> second.
\<close>

theorem capsule_inline_agrees:
  assumes c1: "planar_circle c1 r1" and c2: "planar_circle c2 r2"
    and eps: "0 < eps"
    and apart: "eps \<le> norm3 (vsub c2 c1)"
    and big: "eps \<le> cci_h_sq r1 r2 (norm3 (vsub c2 c1))"
  shows "capsule_intersections c1 r1 c2 r2 =
           Some (vadd (cci_p0 c1 r1 c2 r2)
                   (smul (sqrt (cci_h_sq r1 r2 (norm3 (vsub c2 c1)))) (cci_perp c1 c2)),
                 vsub (cci_p0 c1 r1 c2 r2)
                   (smul (sqrt (cci_h_sq r1 r2 (norm3 (vsub c2 c1)))) (cci_perp c1 c2)))
         \<and> circle_circle_intersections c1 r1 c2 r2 eps =
           Inr [vadd (cci_p0 c1 r1 c2 r2)
                  (smul (sqrt (cci_h_sq r1 r2 (norm3 (vsub c2 c1)))) (cci_perp c1 c2)),
                vsub (cci_p0 c1 r1 c2 r2)
                  (smul (sqrt (cci_h_sq r1 r2 (norm3 (vsub c2 c1)))) (cci_perp c1 c2))]"
proof -
  define d where "d = norm3 (vsub c2 c1)"
  have dpos: "0 < d" using eps apart by (simp add: d_def)
  have hpos: "0 < cci_h_sq r1 r2 d" using eps big by (simp add: d_def)
  have cross: "\<bar>r1 - r2\<bar> < d \<and> d < r1 + r2"
    using c1 c2 dpos hpos by (intro crossing_from_h_sq) (simp_all add: planar_circle_def)
  have tri: "circle_circle_intersections c1 r1 c2 r2 eps =
           Inr [vadd (cci_p0 c1 r1 c2 r2)
                  (smul (sqrt (cci_h_sq r1 r2 (norm3 (vsub c2 c1)))) (cci_perp c1 c2)),
                vsub (cci_p0 c1 r1 c2 r2)
                  (smul (sqrt (cci_h_sq r1 r2 (norm3 (vsub c2 c1)))) (cci_perp c1 c2))]"
    using eps apart big cross by (intro two_points) (simp_all add: d_def)
  have z: "pz c1 = 0" "pz c2 = 0" using c1 c2 by (simp_all add: planar_circle_def)
  have dnz: "norm3 (vsub c2 c1) \<noteq> 0" using dpos by (simp add: d_def)
  have hnn: "0 \<le> cci_h_sq r1 r2 (norm3 (vsub c2 c1))" using hpos by (simp add: d_def)
  have cap: "capsule_intersections c1 r1 c2 r2 =
           Some (vadd (cci_p0 c1 r1 c2 r2)
                   (smul (sqrt (cci_h_sq r1 r2 (norm3 (vsub c2 c1)))) (cci_perp c1 c2)),
                 vsub (cci_p0 c1 r1 c2 r2)
                   (smul (sqrt (cci_h_sq r1 r2 (norm3 (vsub c2 c1)))) (cci_perp c1 c2)))"
    by (simp only: capsule_two_points [OF dnz hnn] triangle_points_planar [OF z])
  show ?thesis using tri cap by simp
qed

theorem capsule_inline_agrees_witness:
  "capsule_intersections (Point (- 2) 0 0) 3 (Point 2 0 0) 3
     = Some (Point 0 (sqrt 5) 0, Point 0 (- sqrt 5) 0)
   \<and> circle_circle_intersections (Point (- 2) 0 0) 3 (Point 2 0 0) 3 default_eps
     = Inr [Point 0 (sqrt 5) 0, Point 0 (- sqrt 5) 0]"
proof -
  have d: "norm3 (vsub (Point 2 0 0) (Point (- 2) 0 0)) = 4"
    by (simp add: norm3_def vsub_def sqrt16)
  have d': "norm3 (Point 4 0 0) = 4"
    by (simp add: norm3_def sqrt16)
  have h: "cci_h_sq 3 3 4 = 5"
    by (simp add: cci_h_sq_def cci_a_def)
  have p: "cci_p0 (Point (- 2) 0 0) 3 (Point 2 0 0) 3 = Point 0 0 0"
    by (simp add: cci_p0_def Let_def d cci_a_def vadd_def smul_def vdiv_def)
  have q: "cci_perp (Point (- 2) 0 0) (Point 2 0 0) = Point 0 1 0"
    by (simp add: cci_perp_def Let_def d vdiv_def)
  show ?thesis
    using capsule_inline_agrees [of "Point (- 2) 0 0" 3 "Point 2 0 0" 3 default_eps]
    by (simp add: planar_circle_def d d' h p q default_eps_def vadd_def smul_def vsub_def)
qed

section \<open>Orientation of the triangle of centres\<close>







section \<open>Properties of the snap\<close>

lemma length_snap [simp]: "length (snap pts a b) = length pts"
  by (simp add: snap_def)

lemma snap_hd:
  assumes "2 \<le> length pts"
  shows "hd (snap pts a b) = a"
proof -
  have ne: "snap pts a b \<noteq> []" using assms by (auto simp flip: length_0_conv)
  have "hd (snap pts a b) = snap pts a b ! 0"
    using ne by (simp add: hd_conv_nth)
  also have "\<dots> = a"
    using assms by (auto simp add: snap_def nth_list_update)
  finally show ?thesis .
qed

lemma snap_last:
  assumes "1 \<le> length pts"
  shows "last (snap pts a b) = b"
proof -
  have ne: "snap pts a b \<noteq> []" using assms by (auto simp flip: length_0_conv)
  have "last (snap pts a b) = snap pts a b ! (length pts - 1)"
    using ne by (simp add: last_conv_nth)
  also have "\<dots> = b"
    using assms by (auto simp add: snap_def)
  finally show ?thesis .
qed

lemma snap_segments_nth:
  "i < length segs \<Longrightarrow>
     snap_segments segs js ! i = snap (segs ! i) (js ! i) (js ! ((i + 1) mod length js))"
  by (simp add: snap_segments_def)

lemma snap_segments_capsule:
  "snap_segments [pts_A, pts_B] [p1, p2] = [snap pts_A p1 p2, snap pts_B p2 p1]"
  by (simp add: snap_segments_def upt_rec)

lemma capsule_points_concat:
  "capsule_points pts_A pts_B p1 p2 = concat (snap_segments [pts_A, pts_B] [p1, p2])"
  by (simp add: capsule_points_def snap_segments_capsule)

lemma pred_succ_mod:
  fixes i n :: nat
  assumes "i < n"
  shows "(((i + n - 1) mod n) + 1) mod n = i"
proof -
  have "(((i + n - 1) mod n) + 1) mod n = ((i + n - 1) + 1) mod n"
    by (simp add: mod_Suc_eq)
  also have "\<dots> = (i + n) mod n" using assms by simp
  also have "\<dots> = i" using assms by simp
  finally show ?thesis .
qed

text \<open>
  C7: take \<open>N\<close> discretised arcs and \<open>N\<close> junction points in a cycle, every arc with at
  least two points (the arcs of the scene are built from 60 components). After the snap,
  the first point of segment \<open>i\<close> is the last point of segment \<open>i - 1\<close> modulo \<open>N\<close>: both are
  the junction point \<open>i\<close> itself, whatever the sampled values were. The two arcs of the
  capsule are the instance \<open>snap_segments_capsule\<close>.
\<close>

theorem snapped_segments_meet:
  assumes "length js = length segs"
    and "\<forall>k < length segs. 2 \<le> length (segs ! k)"
    and "i < length segs"
  shows "hd (snap_segments segs js ! i)
           = last (snap_segments segs js ! ((i + length segs - 1) mod length segs))
         \<and> hd (snap_segments segs js ! i) = js ! i"
proof -
  define n where "n = length segs"
  define j where "j = (i + n - 1) mod n"
  have npos: "0 < n" using assms(3) by (auto simp add: n_def)
  have jn: "j < n" using npos by (simp add: j_def)
  have ji: "(j + 1) mod n = i"
    unfolding j_def using assms(3) by (intro pred_succ_mod) (simp add: n_def)
  have "hd (snap_segments segs js ! i) = js ! i"
    using assms by (simp add: snap_segments_nth snap_hd)
  moreover have "1 \<le> length (segs ! j)"
    using assms(2) jn by (auto simp: n_def dest!: spec [of _ j])
  then have "last (snap_segments segs js ! j) = js ! i"
    using jn ji assms(1) by (simp add: snap_segments_nth snap_last n_def)
  ultimately show ?thesis by (simp add: j_def n_def)
qed

theorem snapped_segments_meet_witness:
  "hd (snap_segments [[10, 11, 12], [20, 21 :: nat]] [1, 2] ! 0)
     = last (snap_segments [[10, 11, 12], [20, 21]] [1, 2] ! 1)
   \<and> hd (snap_segments [[10, 11, 12], [20, 21 :: nat]] [1, 2] ! 0) = 1"
  using snapped_segments_meet [of "[1, 2 :: nat]" "[[10, 11, 12], [20, 21]]" 0]
  by (simp add: less_Suc_eq numeral_2_eq_2)

section \<open>Properties of \<open>get_arc_path\<close>\<close>

subsection \<open>Angles\<close>









subsection \<open>The selected arc\<close>













subsection \<open>The endpoints of the arc\<close>




lemma length_arc_points [simp]: "length (arc_points A) = num_components A"
  by (simp add: arc_points_def)





end
